theory Spec2Isabelle
  imports Main
begin

section \<open>Data model\<close>

text \<open>
  The adapter of \<^verbatim>\<open>src/server/libs/PubSub/PubSubAdapter.js\<close> publishes a message once
  per subscriber type of a channel and lets one subscriber of each type consume it.
  Channels, subscriber types and message identifiers are JavaScript strings; a field
  that may be \<^verbatim>\<open>undefined\<close> is a \<open>string option\<close>.
\<close>

type_synonym channel_name = string
type_synonym subscriber_type = string
type_synonym message_id = string
type_synonym client = nat

record msg_header =
  messageId :: message_id
  sentAt :: nat

record message =
  header :: msg_header
  channel :: "string option"
  recipient :: "string option"
  payload :: string

text \<open>The \<^verbatim>\<open>option\<close> object of the three operations; only \<^verbatim>\<open>subscriberType\<close> is read.\<close>

record options =
  subscriberType :: "string option"

text \<open>
  The methods of the \<^verbatim>\<open>Message\<close> class (\<^verbatim>\<open>./Message\<close>, not part of the sources) and
  \<^verbatim>\<open>JSON.stringify\<close> are parameters of the model: nothing is assumed about them.
\<close>

record env =
  tryValidate :: "message \<Rightarrow> bool"
  getValidationErrors :: "message \<Rightarrow> string list"
  createFromString :: "string \<Rightarrow> message"
  stringify :: "message \<Rightarrow> string"

text \<open>
  Every effect of the code is an event of the trace, in the order the code performs it:
  the calls on a transport client, the writes to the registry, the console, the
  subscriber's callback and the exit of the process.
\<close>

datatype event =
    CreateClient client
  | ClientPublish client channel_name string
  | ClientSubscribe client channel_name
  | ClientUnsubscribe client channel_name
  | ClientQuit client
  | AddMessageIdToTypeSet channel_name subscriber_type message_id
  | RemoveMessageIdFromTypeSet channel_name subscriber_type message_id
  | RegisterChannelSubscribers channel_name subscriber_type
  | UnregisterSubscriberFromAllChannels
  | ConsoleLog string
  | ConsoleError string
  | Callback "string option" message
  | ProcessExit int

text \<open>
  The world the adapter runs in: the shared registry, the counter that names transport
  clients, the clock read by \<^verbatim>\<open>new Date()\<close> (the value of its k-th reading is \<open>dates w k\<close>),
  the identity of the process and the trace.
\<close>

record world =
  channelSubscriberTypes :: "channel_name \<Rightarrow> subscriber_type list"
  channelTypeSubscribers :: "channel_name \<times> subscriber_type \<Rightarrow> string list"
  inFlightMessageIds :: "channel_name \<times> subscriber_type \<Rightarrow> message_id set"
  nextClient :: nat
  dates :: "nat \<Rightarrow> nat"
  dateCalls :: nat
  pid :: nat
  uniqueId :: string
  trace :: "event list"

datatype 'a promise = Pending | Fulfilled 'a | Rejected string

section \<open>Primitive effects\<close>

definition emit :: "event \<Rightarrow> world \<Rightarrow> world" where
  "emit e w = w\<lparr>trace := trace w @ [e]\<rparr>"

definition console_log :: "string \<Rightarrow> world \<Rightarrow> world" where
  "console_log s w = emit (ConsoleLog s) w"

definition console_error :: "string \<Rightarrow> world \<Rightarrow> world" where
  "console_error s w = emit (ConsoleError s) w"

definition client_publish :: "client \<Rightarrow> channel_name \<Rightarrow> string \<Rightarrow> world \<Rightarrow> world" where
  "client_publish c ch s w = emit (ClientPublish c ch s) w"

definition client_subscribe :: "client \<Rightarrow> channel_name \<Rightarrow> world \<Rightarrow> world" where
  "client_subscribe c ch w = emit (ClientSubscribe c ch) w"

definition client_unsubscribe :: "client \<Rightarrow> channel_name \<Rightarrow> world \<Rightarrow> world" where
  "client_unsubscribe c ch w = emit (ClientUnsubscribe c ch) w"

definition client_quit :: "client \<Rightarrow> world \<Rightarrow> world" where
  "client_quit c w = emit (ClientQuit c) w"

definition callback :: "string option \<Rightarrow> message \<Rightarrow> world \<Rightarrow> world" where
  "callback err m w = emit (Callback err m) w"

definition process_exit :: "int \<Rightarrow> world \<Rightarrow> world" where
  "process_exit code w = emit (ProcessExit code) w"

definition newDate :: "world \<Rightarrow> nat \<times> world" where
  "newDate w = (dates w (dateCalls w), w\<lparr>dateCalls := Suc (dateCalls w)\<rparr>)"

text \<open>\<^verbatim>\<open>resolve(v)\<close> settles a pending promise and does nothing to a settled one.\<close>

definition resolve :: "'a promise \<Rightarrow> 'a \<Rightarrow> 'a promise" where
  "resolve p v = (case p of Pending \<Rightarrow> Fulfilled v | _ \<Rightarrow> p)"

text \<open>\<^verbatim>\<open>!option.subscriberType\<close>: \<^verbatim>\<open>undefined\<close> and the empty string are falsy.\<close>

definition falsy :: "string option \<Rightarrow> bool" where
  "falsy v = (case v of None \<Rightarrow> True | Some s \<Rightarrow> s = [])"

text \<open>An array inside a template literal is its elements joined by commas.\<close>

fun join_comma :: "string list \<Rightarrow> string" where
  "join_comma [] = []"
| "join_comma [x] = x"
| "join_comma (x # y # ys) = x @ '','' @ join_comma (y # ys)"

text \<open>A number inside a template literal is written in decimal.\<close>

fun show_nat :: "nat \<Rightarrow> string" where
  "show_nat n =
     (if n < 10 then [''0123456789'' ! n]
      else show_nat (n div 10) @ [''0123456789'' ! (n mod 10)])"

declare show_nat.simps [simp del]

definition show_int :: "int \<Rightarrow> string" where
  "show_int i = (if i < 0 then ''-'' @ show_nat (nat (- i)) else show_nat (nat i))"

section \<open>The registry helper\<close>

text \<open>
  Modelled from the spec: the functions of \<^verbatim>\<open>./PubSubHelper\<close>, which is not part of the
  sources. \<open>createClient\<close> is the spec's \<^verbatim>\<open>createConnection() -> connection\<close>; each call
  opens a connection of its own.
\<close>

definition createClient :: "world \<Rightarrow> client \<times> world" where
  "createClient w =
     (nextClient w, emit (CreateClient (nextClient w)) (w\<lparr>nextClient := Suc (nextClient w)\<rparr>))"

text \<open>
  Modelled from the spec: \<^verbatim>\<open>listSubscriberTypes(channel) -> set of type\<close>, "returns currently
  known types for a channel; empty set if none registered". The list is the order in
  which the loop of \<^verbatim>\<open>publish\<close> meets the types.
\<close>

definition getSubscriberTypes :: "world \<Rightarrow> channel_name \<Rightarrow> subscriber_type list" where
  "getSubscriberTypes w ch = channelSubscriberTypes w ch"

text \<open>
  Modelled from the spec: \<^verbatim>\<open>listSubscribers(channel, type) -> sequence\<close>, "used only to test
  non-emptiness".
\<close>

definition getChannelSubscribersForType ::
  "world \<Rightarrow> channel_name \<Rightarrow> subscriber_type \<Rightarrow> string list" where
  "getChannelSubscribersForType w ch ty = channelTypeSubscribers w (ch, ty)"

text \<open>
  Modelled from the spec: \<^verbatim>\<open>reserveMessageForType(channel, type, messageId)\<close>, "adds
  messageId to the in-flight set for (channel, type)", "set semantics absorb duplicates".
\<close>

definition addMessageIdToTypeSet ::
  "channel_name \<Rightarrow> subscriber_type \<Rightarrow> message_id \<Rightarrow> world \<Rightarrow> world" where
  "addMessageIdToTypeSet ch ty mid w =
     emit (AddMessageIdToTypeSet ch ty mid)
       (w\<lparr>inFlightMessageIds :=
            (inFlightMessageIds w)((ch, ty) := insert mid (inFlightMessageIds w (ch, ty)))\<rparr>)"

text \<open>
  Modelled from the spec: \<^verbatim>\<open>claimMessageForType(channel, type, messageId) -> bool\<close>,
  "atomically removes messageId from the in-flight set; returns true iff the removal
  actually happened (ID was present)".
\<close>

definition removeMessageIdFromTypeSet ::
  "channel_name \<Rightarrow> subscriber_type \<Rightarrow> message_id \<Rightarrow> world \<Rightarrow> bool \<times> world" where
  "removeMessageIdFromTypeSet ch ty mid w =
     (mid \<in> inFlightMessageIds w (ch, ty),
      emit (RemoveMessageIdFromTypeSet ch ty mid)
        (w\<lparr>inFlightMessageIds :=
             (inFlightMessageIds w)((ch, ty) := inFlightMessageIds w (ch, ty) - {mid})\<rparr>))"

text \<open>
  Modelled from the spec: \<^verbatim>\<open>registerSubscriber(channel, type)\<close>, "idempotent: registering
  an already-registered (channel, type) pair is a no-op". The current process is entered
  under its unique id.
\<close>

definition registerChannelSubscribers ::
  "channel_name \<Rightarrow> subscriber_type \<Rightarrow> world \<Rightarrow> world" where
  "registerChannelSubscribers ch ty w =
     emit (RegisterChannelSubscribers ch ty)
       (w\<lparr>channelSubscriberTypes :=
            (channelSubscriberTypes w)
              (ch := (if ty \<in> set (channelSubscriberTypes w ch) then channelSubscriberTypes w ch
                      else channelSubscriberTypes w ch @ [ty])),
          channelTypeSubscribers :=
            (channelTypeSubscribers w)
              ((ch, ty) :=
                 (if uniqueId w \<in> set (channelTypeSubscribers w (ch, ty))
                  then channelTypeSubscribers w (ch, ty)
                  else channelTypeSubscribers w (ch, ty) @ [uniqueId w]))\<rparr>)"

text \<open>Claiming the same identifier several times in a row; the answers, first call first.\<close>

fun claim_repeatedly ::
  "nat \<Rightarrow> channel_name \<Rightarrow> subscriber_type \<Rightarrow> message_id \<Rightarrow> world \<Rightarrow> bool list" where
  "claim_repeatedly 0 ch ty mid w = []"
| "claim_repeatedly (Suc n) ch ty mid w =
     (case removeMessageIdFromTypeSet ch ty mid w of
        (r, w') \<Rightarrow> r # claim_repeatedly n ch ty mid w')"

section \<open>The operations of the adapter\<close>

text \<open>The text of the error \<^verbatim>\<open>publish\<close> throws for a message that fails validation.\<close>

definition validation_error :: "env \<Rightarrow> message \<Rightarrow> string" where
  "validation_error E m =
     ''[Message] did not pass the validation checks: ['' @
       join_comma (getValidationErrors E m) @ '']''"

text \<open>
  The loop over the subscriber types (lines 39 to 54, and again 82 to 100 with the client
  named \<^verbatim>\<open>pub\<close>). The message is mutated in place, so it is threaded through the loop
  together with the world.
\<close>

fun publish_loop ::
  "env \<Rightarrow> client \<Rightarrow> channel_name \<Rightarrow> subscriber_type list \<Rightarrow> message \<times> world \<Rightarrow>
   message \<times> world" where
  "publish_loop E c ch [] (m, w) = (m, w)"
| "publish_loop E c ch (ty # tys) (m, w) =
     (let subscribers = getChannelSubscribersForType w ch ty in
      if length subscribers > 0 then
        (let w1 = addMessageIdToTypeSet ch ty (messageId (header m)) w;
             (d, w2) = newDate w1;
             m1 = m\<lparr>header := (header m)\<lparr>sentAt := d\<rparr>\<rparr>;
             m2 = m1\<lparr>recipient := Some ty\<rparr>;
             w3 = console_log (''PUBLISHING TO ['' @ ch @ '']'') w2;
             w4 = client_publish c ch (stringify E m2) w3
         in publish_loop E c ch tys (m2, w4))
      else publish_loop E c ch tys (m, w))"

text \<open>
  \<^verbatim>\<open>publish(channel, option, message)\<close>. The result is the error thrown (\<open>Inl\<close>) or the
  normal return, the message as the caller sees it afterwards, and the world.
\<close>

definition publish ::
  "env \<Rightarrow> channel_name \<Rightarrow> options \<Rightarrow> message \<Rightarrow> world \<Rightarrow> (string + unit) \<times> message \<times> world" where
  "publish E ch opt m w =
     (let m0 = m\<lparr>channel := Some ch\<rparr>;
          (c, w1) = createClient w
      in if \<not> tryValidate E m0 then (Inl (validation_error E m0), m0, w1)
         else
           (let subscriberTypes = getSubscriberTypes w1 ch;
                (m1, w2) = publish_loop E c ch subscriberTypes (m0, w1)
            in (Inr (), m1, client_quit c w2)))"

text \<open>
  \<^verbatim>\<open>subscribe(channel, option, callback)\<close> up to the point where it returns: the check of
  the option, the connection and the subscription. What it leaves behind is the pair
  of handlers on the connection; they read the connection, the channel and
  \<^verbatim>\<open>option.subscriberType\<close>, which the check has found to be a non-empty string.
\<close>

record subscription =
  sub_client :: client
  sub_channel :: channel_name
  sub_type :: subscriber_type

definition subscribe ::
  "channel_name \<Rightarrow> options \<Rightarrow> world \<Rightarrow> (string + subscription) \<times> world" where
  "subscribe ch opt w =
     (if falsy (subscriberType opt) then (Inl ''[subscriberType] was not set on the config'', w)
      else
        (let (sub, w1) = createClient w;
             w2 = client_subscribe sub ch w1;
             w3 = console_log (''SUBSCRIBING TO ['' @ ch @ '']'') w2
         in (Inr \<lparr>sub_client = sub, sub_channel = ch, sub_type = the (subscriberType opt)\<rparr>, w3)))"

text \<open>The handler of the \<^verbatim>\<open>subscribe\<close> event (lines 167 to 170); \<open>chan\<close> is its first argument.\<close>

definition subscribe_onSubscribe :: "subscription \<Rightarrow> channel_name \<Rightarrow> world \<Rightarrow> world" where
  "subscribe_onSubscribe s chan w =
     (let w1 = console_log (''SUBSCRIBED TO ['' @ chan @ '']'') w
      in registerChannelSubscribers chan (sub_type s) w1)"

text \<open>
  The handler of the \<^verbatim>\<open>message\<close> event (lines 172 to 194). Its first argument \<open>chan\<close>
  shadows the channel of \<^verbatim>\<open>subscribe\<close>: it is the channel the transport delivered the
  raw text on. Inside the test both \<^verbatim>\<open>message.channel\<close> and \<^verbatim>\<open>message.recipient\<close> are
  strings, so \<open>the\<close> reads them.
\<close>

definition subscribe_onMessage ::
  "env \<Rightarrow> subscription \<Rightarrow> channel_name \<Rightarrow> string \<Rightarrow> world \<Rightarrow> world" where
  "subscribe_onMessage E s chan raw w =
     (let w1 = console_log (''RECEIVED MESSAGE FROM ['' @ chan @ '']'') w;
          msg = createFromString E raw
      in if channel msg = Some chan \<and> recipient msg = Some (sub_type s) then
           (let (result, w2) =
                  removeMessageIdFromTypeSet (the (channel msg)) (the (recipient msg))
                    (messageId (header msg)) w1
            in if result then callback None msg w2 else w2)
         else w1)"

text \<open>
  \<^verbatim>\<open>publishAndWaitForResponse(channel, responseChannel, option, message)\<close> up to the point
  where its executor stops running. The executor is an \<^verbatim>\<open>async\<close> function handed to
  \<^verbatim>\<open>new Promise\<close>: an error thrown inside it rejects the executor's own promise, which
  nobody holds, and leaves the promise returned to the caller pending. So the result
  gives the state of the caller's promise, the error thrown inside the executor (if any),
  and the handlers left behind (if the executor got that far).
\<close>

record waiter =
  w_sub :: client
  w_type :: subscriber_type
  w_request :: message

record pawr_result =
  promise :: "message promise"
  executorThrew :: "string option"
  listener :: "waiter option"

definition publishAndWaitForResponse ::
  "env \<Rightarrow> channel_name \<Rightarrow> channel_name \<Rightarrow> options \<Rightarrow> message \<Rightarrow> world \<Rightarrow>
   pawr_result \<times> message \<times> world" where
  "publishAndWaitForResponse E ch responseChannel opt m w =
     (let m0 = m\<lparr>channel := Some ch\<rparr>;
          (pub, w1) = createClient w
      in if \<not> tryValidate E m0 then
           (\<lparr>promise = Pending, executorThrew = Some (validation_error E m0), listener = None\<rparr>,
            m0, w1)
         else
           (let subscriberTypes = getSubscriberTypes w1 ch;
                (m1, w2) = publish_loop E pub ch subscriberTypes (m0, w1);
                w3 = client_quit pub w2
            in if falsy (subscriberType opt) then
                 (\<lparr>promise = Pending,
                   executorThrew = Some ''[subscriberType] was not set on the option'',
                   listener = None\<rparr>, m1, w3)
               else
                 (let (sub, w4) = createClient w3;
                      w5 = client_subscribe sub responseChannel w4;
                      w6 = console_log (''SUBSCRIBING TO ['' @ responseChannel @ '']'') w5
                  in (\<lparr>promise = Pending, executorThrew = None,
                       listener = Some \<lparr>w_sub = sub, w_type = the (subscriberType opt),
                                        w_request = m1\<rparr>\<rparr>, m1, w6))))"

text \<open>The handler of the \<^verbatim>\<open>subscribe\<close> event (lines 112 to 115).\<close>

definition pawr_onSubscribe :: "waiter \<Rightarrow> channel_name \<Rightarrow> world \<Rightarrow> world" where
  "pawr_onSubscribe wt chan w =
     (let w1 = console_log (''SUBSCRIBED TO ['' @ chan @ '']'') w
      in registerChannelSubscribers chan (w_type wt) w1)"

text \<open>
  The handler of the \<^verbatim>\<open>message\<close> event (lines 117 to 142), acting on the caller's promise
  and the world. The test of the message identifier against the request's is commented
  out in the source (line 124), so \<open>w_request\<close> is not read.
\<close>

definition pawr_onMessage ::
  "env \<Rightarrow> waiter \<Rightarrow> channel_name \<Rightarrow> string \<Rightarrow> message promise \<times> world \<Rightarrow>
   message promise \<times> world" where
  "pawr_onMessage E wt chan raw pw =
     (let (p, w) = pw;
          w1 = console_log (''RECEIVED MESSAGE FROM ['' @ chan @ '']'') w;
          response = createFromString E raw
      in if channel response = Some chan \<and> recipient response = Some (w_type wt) then
           (let (result, w2) =
                  removeMessageIdFromTypeSet (the (channel response)) (the (recipient response))
                    (messageId (header response)) w1
            in if result then
                 (let w3 = client_unsubscribe (w_sub wt) chan w2;
                      w4 = client_quit (w_sub wt) w3
                  in (resolve p response, w4))
               else (p, w2))
         else (p, w1))"

text \<open>
  The handler of the process-exit event (lines 202 to 213). What
  \<^verbatim>\<open>unregisterSubscriberFromAllChannels\<close> does is a parameter: \<open>None\<close> when the awaited
  call never settles, otherwise the error it rejects with (if any) and the world it
  leaves. The handler awaits the call, so it exits the process only if the call settles:
  its result is \<open>None\<close> when the process is never made to exit.
\<close>

definition processExit_handler ::
  "(world \<Rightarrow> (string option \<times> world) option) \<Rightarrow> int \<Rightarrow> world \<Rightarrow> world option" where
  "processExit_handler unregister exitCode w =
     (case unregister (emit UnregisterSubscriberFromAllChannels w) of
        None \<Rightarrow> None
      | Some (err, w1) \<Rightarrow>
          (let w2 = (case err of
                       None \<Rightarrow> w1
                     | Some e \<Rightarrow>
                         console_error
                           ''Error occurred trying to unregister the current process for its subscribed channels''
                           w1);
               w3 = console_log
                      (''Existing process ['' @ show_nat (pid w2) @ ''] with unique id ['' @
                         uniqueId w2 @ ''] with exist code ['' @ show_int exitCode @ '']'') w2
           in Some (process_exit exitCode w3)))"

text \<open>Observations of a trace.\<close>

definition transport_writes :: "event list \<Rightarrow> (client \<times> channel_name \<times> string) list" where
  "transport_writes tr =
     concat (map (\<lambda>e. case e of ClientPublish c ch s \<Rightarrow> [(c, ch, s)] | _ \<Rightarrow> []) tr)"

definition reservations :: "event list \<Rightarrow> (channel_name \<times> subscriber_type \<times> message_id) list" where
  "reservations tr =
     concat (map (\<lambda>e. case e of AddMessageIdToTypeSet ch ty mid \<Rightarrow> [(ch, ty, mid)] | _ \<Rightarrow> []) tr)"

definition callbacks :: "event list \<Rightarrow> (string option \<times> message) list" where
  "callbacks tr =
     concat (map (\<lambda>e. case e of Callback err m \<Rightarrow> [(err, m)] | _ \<Rightarrow> []) tr)"

text \<open>The events an operation added when it took the world from \<open>w\<close> to \<open>w'\<close>.\<close>

definition new_events :: "world \<Rightarrow> world \<Rightarrow> event list" where
  "new_events w w' = drop (length (trace w)) (trace w')"

text \<open>
  The message as \<^verbatim>\<open>publish\<close> serialises it for one subscriber type: the caller's message
  with the channel, the recipient and the time of sending stamped on it.
\<close>

definition wire_copy :: "message \<Rightarrow> channel_name \<Rightarrow> nat \<Rightarrow> subscriber_type \<Rightarrow> message" where
  "wire_copy m ch d ty =
     m\<lparr>header := (header m)\<lparr>sentAt := d\<rparr>, channel := Some ch, recipient := Some ty\<rparr>"

text \<open>
  The events of the fan-out for a list of subscriber types that all have subscribers:
  per type the reservation, the console line and the transport write, in this order.
  \<open>clock k\<close> is the reading of the clock for the first type.
\<close>

fun fanout_events ::
  "env \<Rightarrow> client \<Rightarrow> channel_name \<Rightarrow> message \<Rightarrow> (nat \<Rightarrow> nat) \<Rightarrow> nat \<Rightarrow> subscriber_type list \<Rightarrow>
   event list" where
  "fanout_events E c ch m clock k [] = []"
| "fanout_events E c ch m clock k (ty # tys) =
     [AddMessageIdToTypeSet ch ty (messageId (header m)),
      ConsoleLog (''PUBLISHING TO ['' @ ch @ '']''),
      ClientPublish c ch (stringify E (wire_copy m ch (clock k) ty))] @
     fanout_events E c ch m clock (Suc k) tys"

text \<open>A subscriber type is served when the registry lists a subscriber for it (line 45).\<close>

definition served :: "world \<Rightarrow> channel_name \<Rightarrow> subscriber_type \<Rightarrow> bool" where
  "served w ch ty = (length (getChannelSubscribersForType w ch ty) > 0)"

section \<open>A concrete scenario\<close>

text \<open>
  The scenario of the specification: channel \<^verbatim>\<open>orders\<close> has the subscriber types
  \<^verbatim>\<open>worker\<close> and \<^verbatim>\<open>audit\<close>, each with one subscriber. Channel \<^verbatim>\<open>mixed\<close> has a type
  without subscribers, every other channel has no type at all, and one response is in
  flight for type \<^verbatim>\<open>svcA\<close> on channel \<^verbatim>\<open>resp\<close>. In the example environment a message
  is valid when it has an identifier, and a raw text decodes to a response for
  \<^verbatim>\<open>svcA\<close> on \<^verbatim>\<open>resp\<close> with that text as its identifier.
\<close>

definition example_env :: env where
  "example_env =
     \<lparr>tryValidate = (\<lambda>m. messageId (header m) \<noteq> []),
      getValidationErrors =
        (\<lambda>m. if messageId (header m) = [] then [''header.messageId is required''] else []),
      createFromString =
        (\<lambda>s. \<lparr>header = \<lparr>messageId = s, sentAt = 0\<rparr>, channel = Some ''resp'',
               recipient = Some ''svcA'', payload = []\<rparr>),
      stringify = (\<lambda>m. messageId (header m) @ ''>'' @ (case recipient m of None \<Rightarrow> [] | Some r \<Rightarrow> r))\<rparr>"

definition example_world :: world where
  "example_world =
     \<lparr>channelSubscriberTypes =
        (\<lambda>ch. if ch = ''orders'' then [''worker'', ''audit'']
              else if ch = ''mixed'' then [''worker'', ''idle''] else []),
      channelTypeSubscribers = (\<lambda>k. if snd k = ''idle'' then [] else [''p1'']),
      inFlightMessageIds = (\<lambda>k. if k = (''resp'', ''svcA'') then {''r1''} else {}),
      nextClient = 0,
      dates = (\<lambda>k. 1000 + k),
      dateCalls = 0,
      pid = 4242,
      uniqueId = ''p0'',
      trace = []\<rparr>"

definition example_message :: message where
  "example_message =
     \<lparr>header = \<lparr>messageId = ''m1'', sentAt = 0\<rparr>, channel = None, recipient = None,
      payload = ''id=1''\<rparr>"

definition bad_message :: message where
  "bad_message =
     \<lparr>header = \<lparr>messageId = [], sentAt = 0\<rparr>, channel = None, recipient = None,
      payload = ''id=1''\<rparr>"

section \<open>Basic facts\<close>

lemmas effect_defs = emit_def console_log_def console_error_def client_publish_def
  client_subscribe_def client_unsubscribe_def client_quit_def callback_def process_exit_def
  newDate_def createClient_def

lemmas example_defs = example_env_def example_world_def example_message_def bad_message_def

lemma new_events_append: "trace w' = trace w @ evs \<Longrightarrow> new_events w w' = evs"
  by (simp add: new_events_def)

lemma transport_writes_append [simp]:
  "transport_writes (xs @ ys) = transport_writes xs @ transport_writes ys"
  by (simp add: transport_writes_def)

lemma reservations_append [simp]:
  "reservations (xs @ ys) = reservations xs @ reservations ys"
  by (simp add: reservations_def)

lemma transport_writes_Nil [simp]: "transport_writes [] = []"
  by (simp add: transport_writes_def)

lemma transport_writes_Cons [simp]:
  "transport_writes (e # es) =
     (case e of ClientPublish c ch s \<Rightarrow> [(c, ch, s)] | _ \<Rightarrow> []) @ transport_writes es"
  by (simp add: transport_writes_def)

lemma reservations_Nil [simp]: "reservations [] = []"
  by (simp add: reservations_def)

lemma reservations_Cons [simp]:
  "reservations (e # es) =
     (case e of AddMessageIdToTypeSet ch ty mid \<Rightarrow> [(ch, ty, mid)] | _ \<Rightarrow> []) @
     reservations es"
  by (simp add: reservations_def)

lemma callbacks_Nil [simp]: "callbacks [] = []"
  by (simp add: callbacks_def)

lemma callbacks_Cons [simp]:
  "callbacks (e # es) =
     (case e of Callback err m \<Rightarrow> [(err, m)] | _ \<Rightarrow> []) @ callbacks es"
  by (simp add: callbacks_def)

lemma callbacks_append [simp]: "callbacks (xs @ ys) = callbacks xs @ callbacks ys"
  by (simp add: callbacks_def)

lemma join_comma_contains:
  "v \<in> set vs \<Longrightarrow> \<exists>pre post. join_comma vs = pre @ v @ post"
proof (induction vs rule: join_comma.induct)
  case 1
  then show ?case by simp
next
  case (2 x)
  then have "join_comma [x] = [] @ v @ []" by simp
  then show ?case by blast
next
  case (3 x y ys)
  show ?case
  proof (cases "v = x")
    case True
    then have "join_comma (x # y # ys) = [] @ v @ ('','' @ join_comma (y # ys))" by simp
    then show ?thesis by blast
  next
    case False
    with 3 obtain pre post where "join_comma (y # ys) = pre @ v @ post" by auto
    then have "join_comma (x # y # ys) = (x @ '','' @ pre) @ v @ post" by simp
    then show ?thesis by blast
  qed
qed

section \<open>The loop over the subscriber types\<close>

lemma fanout_events_cong:
  "messageId (header m') = messageId (header m) \<Longrightarrow>
   (\<And>d ty. wire_copy m' ch d ty = wire_copy m ch d ty) \<Longrightarrow>
   fanout_events E c ch m' clock k tys = fanout_events E c ch m clock k tys"
  by (induction tys arbitrary: k) simp_all

lemma wire_copy_here:
  "channel m = Some ch \<Longrightarrow>
   m\<lparr>header := (header m)\<lparr>sentAt := d\<rparr>, recipient := Some ty\<rparr> = wire_copy m ch d ty"
  by (simp add: wire_copy_def)

text \<open>What the loop leaves alone: the registry of subscribers, and the identity of the message.\<close>

lemma publish_loop_frame:
  "channelTypeSubscribers (snd (publish_loop E c ch tys (m, w))) = channelTypeSubscribers w \<and>
   channelSubscriberTypes (snd (publish_loop E c ch tys (m, w))) = channelSubscriberTypes w \<and>
   nextClient (snd (publish_loop E c ch tys (m, w))) = nextClient w \<and>
   messageId (header (fst (publish_loop E c ch tys (m, w)))) = messageId (header m) \<and>
   channel (fst (publish_loop E c ch tys (m, w))) = channel m \<and>
   payload (fst (publish_loop E c ch tys (m, w))) = payload m"
  by (induction tys arbitrary: m w)
     (simp_all add: Let_def effect_defs addMessageIdToTypeSet_def)

text \<open>One turn of the loop for a served type.\<close>

lemma publish_loop_step:
  assumes "served w ch ty"
  shows "publish_loop E c ch (ty # tys) (m, w) =
           publish_loop E c ch tys
             (m\<lparr>header := (header m)\<lparr>sentAt := dates w (dateCalls w)\<rparr>, recipient := Some ty\<rparr>,
              w\<lparr>inFlightMessageIds :=
                   (inFlightMessageIds w)
                     ((ch, ty) := insert (messageId (header m)) (inFlightMessageIds w (ch, ty))),
                 dateCalls := Suc (dateCalls w),
                 trace := trace w @
                   [AddMessageIdToTypeSet ch ty (messageId (header m)),
                    ConsoleLog (''PUBLISHING TO ['' @ ch @ '']''),
                    ClientPublish c ch
                      (stringify E
                         (m\<lparr>header := (header m)\<lparr>sentAt := dates w (dateCalls w)\<rparr>,
                             recipient := Some ty\<rparr>))]\<rparr>)"
  using assms by (simp add: served_def Let_def effect_defs addMessageIdToTypeSet_def)

lemma publish_loop_skip:
  "\<not> served w ch ty \<Longrightarrow>
   publish_loop E c ch (ty # tys) (m, w) = publish_loop E c ch tys (m, w)"
  by (simp add: served_def)

lemma publish_loop_trace:
  "channel m = Some ch \<Longrightarrow>
   trace (snd (publish_loop E c ch tys (m, w))) =
     trace w @ fanout_events E c ch m (dates w) (dateCalls w) (filter (served w ch) tys)"
proof (induction tys arbitrary: m w)
  case Nil
  then show ?case by simp
next
  case (Cons ty tys)
  show ?case
  proof (cases "served w ch ty")
    case False
    then show ?thesis
      using Cons.IH[OF Cons.prems, of w] by (simp add: publish_loop_skip del: publish_loop.simps)
  next
    case True
    let ?m2 = "m\<lparr>header := (header m)\<lparr>sentAt := dates w (dateCalls w)\<rparr>, recipient := Some ty\<rparr>"
    have ch2: "channel ?m2 = Some ch" using Cons.prems by simp
    have fe: "fanout_events E c ch ?m2 clock k xs = fanout_events E c ch m clock k xs" for clock k xs
      by (rule fanout_events_cong) (simp_all add: wire_copy_def)
    have srv: "served (w\<lparr>inFlightMessageIds := a, dateCalls := b, trace := t\<rparr>) ch = served w ch"
      for a b t
      by (simp add: served_def getChannelSubscribersForType_def fun_eq_iff)
    show ?thesis
      unfolding publish_loop_step[OF True] Cons.IH[OF ch2] fe srv
      using True Cons.prems
      by (simp add: wire_copy_here del: publish_loop.simps)
  qed
qed

lemma publish_loop_inFlight:
  "inFlightMessageIds (snd (publish_loop E c ch tys (m, w))) k =
     (if \<exists>ty \<in> set tys. served w ch ty \<and> k = (ch, ty)
      then insert (messageId (header m)) (inFlightMessageIds w k)
      else inFlightMessageIds w k)"
proof (induction tys arbitrary: m w)
  case Nil
  then show ?case by simp
next
  case (Cons ty tys)
  show ?case
  proof (cases "served w ch ty")
    case False
    then show ?thesis
      using Cons.IH[of m w] by (auto simp: publish_loop_skip simp del: publish_loop.simps)
  next
    case True
    have srv: "served (w\<lparr>inFlightMessageIds := a, dateCalls := b, trace := t\<rparr>) ch = served w ch"
      for a b t
      by (simp add: served_def getChannelSubscribersForType_def fun_eq_iff)
    show ?thesis
      unfolding publish_loop_step[OF True] Cons.IH srv
      using True by (auto simp del: publish_loop.simps)
  qed
qed

lemma transport_writes_fanout:
  "transport_writes (fanout_events E c ch m clock k tys) =
     map (\<lambda>j. (c, ch, stringify E (wire_copy m ch (clock (k + j)) (tys ! j)))) [0..<length tys]"
proof (induction tys arbitrary: k)
  case Nil
  then show ?case by (simp add: transport_writes_def)
next
  case (Cons ty tys)
  have "[0..<length (ty # tys)] = 0 # map Suc [0..<length tys]"
    by (simp add: upt_conv_Cons map_Suc_upt del: upt_Suc)
  then show ?case
    using Cons.IH[of "Suc k"] by (simp add: transport_writes_def comp_def)
qed

lemma reservations_fanout:
  "reservations (fanout_events E c ch m clock k tys) =
     map (\<lambda>ty. (ch, ty, messageId (header m))) tys"
  by (induction tys arbitrary: k) (simp_all add: reservations_def)

text \<open>
  In the events of the fan-out the write for the j-th type comes after j other writes and
  after the reservation for that type.
\<close>

lemma fanout_reserved_before:
  "j < length tys \<Longrightarrow>
   \<exists>pre post. fanout_events E c ch m clock k tys =
       pre @ ClientPublish c ch (stringify E (wire_copy m ch (clock (k + j)) (tys ! j))) # post \<and>
     length (transport_writes pre) = j \<and>
     AddMessageIdToTypeSet ch (tys ! j) (messageId (header m)) \<in> set pre"
proof (induction tys arbitrary: k j)
  case Nil
  then show ?case by simp
next
  case (Cons ty tys)
  let ?blk = "[AddMessageIdToTypeSet ch ty (messageId (header m)),
               ConsoleLog (''PUBLISHING TO ['' @ ch @ '']'')]"
  show ?case
  proof (cases j)
    case 0
    have "fanout_events E c ch m clock k (ty # tys) =
            ?blk @ ClientPublish c ch (stringify E (wire_copy m ch (clock (k + 0)) ((ty # tys) ! 0))) #
            fanout_events E c ch m clock (Suc k) tys"
      by simp
    moreover have "length (transport_writes ?blk) = 0" by (simp add: transport_writes_def)
    moreover have "AddMessageIdToTypeSet ch ((ty # tys) ! 0) (messageId (header m)) \<in> set ?blk"
      by simp
    ultimately show ?thesis unfolding 0 by blast
  next
    case (Suc j')
    with Cons.prems have "j' < length tys" by simp
    from Cons.IH[OF this, of "Suc k"] obtain pre post where
      eq: "fanout_events E c ch m clock (Suc k) tys =
             pre @ ClientPublish c ch (stringify E (wire_copy m ch (clock (Suc k + j')) (tys ! j'))) # post"
      and len: "length (transport_writes pre) = j'"
      and res: "AddMessageIdToTypeSet ch (tys ! j') (messageId (header m)) \<in> set pre"
      by blast
    let ?pre = "?blk @ ClientPublish c ch (stringify E (wire_copy m ch (clock k) ty)) # pre"
    have "fanout_events E c ch m clock k (ty # tys) =
            ?pre @ ClientPublish c ch (stringify E (wire_copy m ch (clock (k + j)) ((ty # tys) ! j))) # post"
      using eq Suc by simp
    moreover have "length (transport_writes ?pre) = j"
      using len Suc by (simp add: transport_writes_def)
    moreover have "AddMessageIdToTypeSet ch ((ty # tys) ! j) (messageId (header m)) \<in> set ?pre"
      using res Suc by simp
    ultimately show ?thesis by blast
  qed
qed

text \<open>
  \<^verbatim>\<open>publish\<close> as a whole, for a message that passes validation: the connection is opened,
  the served types are fanned out to in the order of the registry, the connection is
  closed.
\<close>

lemma publish_valid:
  assumes "tryValidate E (m\<lparr>channel := Some ch\<rparr>)"
  shows "fst (publish E ch opt m w) = Inr () \<and>
         trace (snd (snd (publish E ch opt m w))) =
           trace w @ [CreateClient (nextClient w)] @
           fanout_events E (nextClient w) ch m (dates w) (dateCalls w)
             (filter (served w ch) (getSubscriberTypes w ch)) @
           [ClientQuit (nextClient w)] \<and>
         (\<forall>k. inFlightMessageIds (snd (snd (publish E ch opt m w))) k =
            (if \<exists>ty \<in> set (getSubscriberTypes w ch). served w ch ty \<and> k = (ch, ty)
             then insert (messageId (header m)) (inFlightMessageIds w k)
             else inFlightMessageIds w k))"
proof -
  let ?m0 = "m\<lparr>channel := Some ch\<rparr>"
  let ?w1 = "snd (createClient w)"
  let ?c = "nextClient w"
  let ?tys = "getSubscriberTypes w ch"
  let ?L = "publish_loop E ?c ch ?tys (?m0, ?w1)"
  have w1: "trace ?w1 = trace w @ [CreateClient ?c]" "dates ?w1 = dates w"
    "dateCalls ?w1 = dateCalls w" "inFlightMessageIds ?w1 = inFlightMessageIds w"
    "getSubscriberTypes ?w1 ch = ?tys" "served ?w1 ch = served w ch"
    by (simp_all add: effect_defs getSubscriberTypes_def served_def
          getChannelSubscribersForType_def fun_eq_iff)
  have p: "publish E ch opt m w = (Inr (), fst ?L, client_quit ?c (snd ?L))"
    using assms w1(5)
    by (simp add: publish_def Let_def createClient_def split: prod.splits)
  have fe: "fanout_events E ?c ch ?m0 clock k xs = fanout_events E ?c ch m clock k xs" for clock k xs
    by (rule fanout_events_cong) (simp_all add: wire_copy_def)
  have tr: "trace (snd ?L) =
      trace w @ [CreateClient ?c] @
      fanout_events E ?c ch m (dates w) (dateCalls w) (filter (served w ch) ?tys)"
    using publish_loop_trace[of ?m0 ch E ?c ?tys ?w1] by (simp add: w1 fe)
  have inf: "inFlightMessageIds (snd ?L) k =
            (if \<exists>ty \<in> set ?tys. served w ch ty \<and> k = (ch, ty)
             then insert (messageId (header m)) (inFlightMessageIds w k)
             else inFlightMessageIds w k)" for k
    unfolding publish_loop_inFlight w1 by auto
  show ?thesis
    unfolding p using tr inf by (simp add: client_quit_def emit_def)
qed

section \<open>Claiming a message\<close>

lemma claim_absent:
  "mid \<notin> inFlightMessageIds w (ch, ty) \<Longrightarrow>
   claim_repeatedly n ch ty mid w = replicate n False"
  by (induction n arbitrary: w) (simp_all add: removeMessageIdFromTypeSet_def emit_def)

lemma claim_repeatedly_Suc:
  "claim_repeatedly (Suc n) ch ty mid w =
     (mid \<in> inFlightMessageIds w (ch, ty)) # replicate n False"
  by (simp add: claim_absent removeMessageIdFromTypeSet_def emit_def)

text \<open>
  C2. Claiming a message (removing its identifier from the in-flight set of a channel
  and a subscriber type) answers true exactly when the identifier was in the set at that
  moment, and the identifier is gone afterwards. So a second claim right after the first
  answers false; after a reservation two successive claims answer true, then false; and
  however often the same identifier is claimed in a row, at most one claim answers true.
\<close>

theorem claim_single_winner:
  "fst (removeMessageIdFromTypeSet ch ty mid w) = (mid \<in> inFlightMessageIds w (ch, ty)) \<and>
   mid \<notin> inFlightMessageIds (snd (removeMessageIdFromTypeSet ch ty mid w)) (ch, ty) \<and>
   fst (removeMessageIdFromTypeSet ch ty mid (snd (removeMessageIdFromTypeSet ch ty mid w)))
     = False \<and>
   claim_repeatedly (Suc (Suc 0)) ch ty mid (addMessageIdToTypeSet ch ty mid w)
     = [True, False] \<and>
   length (filter (\<lambda>r. r) (claim_repeatedly n ch ty mid w)) \<le> 1"
proof -
  have "length (filter (\<lambda>r. r) (claim_repeatedly n ch ty mid w)) \<le> 1"
    by (cases n) (simp_all add: claim_repeatedly_Suc del: claim_repeatedly.simps(2))
  moreover have
    "claim_repeatedly (Suc (Suc 0)) ch ty mid (addMessageIdToTypeSet ch ty mid w) = [True, False]"
    by (simp add: claim_repeatedly_Suc addMessageIdToTypeSet_def emit_def
          del: claim_repeatedly.simps(2))
  ultimately show ?thesis
    by (simp add: removeMessageIdFromTypeSet_def emit_def)
qed

section \<open>Publishing\<close>

text \<open>
  C5. When the message fails validation, \<^verbatim>\<open>publish\<close> has stamped the channel on the
  message and throws the error whose text is the fixed prefix, the validation errors
  joined by commas, and a closing bracket, so every single violation stands in the text.
  The only event is the opening of the connection: nothing is written to the transport,
  nothing is reserved, and the in-flight sets are as before.
\<close>

theorem publish_invalid_message:
  assumes "\<not> tryValidate E (m\<lparr>channel := Some ch\<rparr>)"
  shows "\<exists>w'. publish E ch opt m w =
           (Inl (''[Message] did not pass the validation checks: ['' @
                   join_comma (getValidationErrors E (m\<lparr>channel := Some ch\<rparr>)) @ '']''),
            m\<lparr>channel := Some ch\<rparr>, w') \<and>
         (\<forall>v \<in> set (getValidationErrors E (m\<lparr>channel := Some ch\<rparr>)).
            \<exists>pre post.
              join_comma (getValidationErrors E (m\<lparr>channel := Some ch\<rparr>)) = pre @ v @ post) \<and>
         trace w' = trace w @ new_events w w' \<and>
         transport_writes (new_events w w') = [] \<and>
         reservations (new_events w w') = [] \<and>
         inFlightMessageIds w' = inFlightMessageIds w"
proof -
  let ?w' = "snd (createClient w)"
  have tr: "trace ?w' = trace w @ [CreateClient (nextClient w)]"
    by (simp add: effect_defs)
  have ne: "new_events w ?w' = [CreateClient (nextClient w)]"
    using tr by (rule new_events_append)
  have p: "publish E ch opt m w =
           (Inl (''[Message] did not pass the validation checks: ['' @
                   join_comma (getValidationErrors E (m\<lparr>channel := Some ch\<rparr>)) @ '']''),
            m\<lparr>channel := Some ch\<rparr>, ?w')"
    using assms by (simp add: publish_def validation_error_def Let_def split: prod.splits)
  have inf: "inFlightMessageIds ?w' = inFlightMessageIds w"
    by (simp add: effect_defs)
  show ?thesis
    using p tr ne inf join_comma_contains
    by (intro exI[of _ ?w']) (simp add: transport_writes_def reservations_def)
qed

theorem publish_invalid_message_witness:
  "\<exists>w'. publish example_env ''orders'' \<lparr>subscriberType = None\<rparr> bad_message example_world =
          (Inl ''[Message] did not pass the validation checks: [header.messageId is required]'',
           bad_message\<lparr>channel := Some ''orders''\<rparr>, w') \<and>
        transport_writes (new_events example_world w') = [] \<and>
        reservations (new_events example_world w') = [] \<and>
        inFlightMessageIds w' = inFlightMessageIds example_world"
proof -
  have h: "\<not> tryValidate example_env (bad_message\<lparr>channel := Some ''orders''\<rparr>)"
    by (simp add: example_defs)
  have e: "getValidationErrors example_env (bad_message\<lparr>channel := Some ''orders''\<rparr>) =
             [''header.messageId is required'']"
    by (simp add: example_defs)
  from publish_invalid_message[OF h, of "\<lparr>subscriberType = None\<rparr>" example_world]
  show ?thesis unfolding e by auto
qed

text \<open>
  C1, as the code has it. For a message that passes validation, when the registry lists
  the distinct subscriber types \<open>tys\<close> for the channel and each of them has a subscriber:
  \<^verbatim>\<open>publish\<close> returns normally; the transport receives exactly one write per type, in
  the order of the registry, all on the one connection and addressed to the channel;
  the j-th write is the serialised message with recipient \<open>tys ! j\<close>, so the recipients
  are distinct and are the registered types; the write for a type comes after the
  reservation of the message identifier for that type; and in the end the identifier is
  in the in-flight set of every type.
\<close>

theorem publish_fans_out:
  assumes "tryValidate E (m\<lparr>channel := Some ch\<rparr>)"
    and "getSubscriberTypes w ch = tys"
    and "distinct tys"
    and "\<forall>ty \<in> set tys. getChannelSubscribersForType w ch ty \<noteq> []"
  shows "\<exists>m' w'. publish E ch opt m w = (Inr (), m', w') \<and>
         (let new = new_events w w';
              c = nextClient w;
              copy = (\<lambda>j. wire_copy m ch (dates w (dateCalls w + j)) (tys ! j))
          in trace w' = trace w @ new \<and>
             transport_writes new = map (\<lambda>j. (c, ch, stringify E (copy j))) [0..<length tys] \<and>
             length (transport_writes new) = length tys \<and>
             map (\<lambda>j. recipient (copy j)) [0..<length tys] = map Some tys \<and>
             distinct (map (\<lambda>j. recipient (copy j)) [0..<length tys]) \<and>
             (\<forall>j < length tys.
                messageId (header (copy j)) = messageId (header m) \<and>
                payload (copy j) = payload m \<and>
                channel (copy j) = Some ch \<and>
                (\<exists>pre post.
                   new = pre @ ClientPublish c ch (stringify E (copy j)) # post \<and>
                   length (transport_writes pre) = j \<and>
                   AddMessageIdToTypeSet ch (tys ! j) (messageId (header m)) \<in> set pre)) \<and>
             (\<forall>ty \<in> set tys. messageId (header m) \<in> inFlightMessageIds w' (ch, ty)))"
proof -
  let ?c = "nextClient w"
  let ?copy = "\<lambda>j. wire_copy m ch (dates w (dateCalls w + j)) (tys ! j)"
  let ?F = "fanout_events E ?c ch m (dates w) (dateCalls w) tys"
  let ?new = "[CreateClient ?c] @ ?F @ [ClientQuit ?c]"
  obtain r m' w' where p: "publish E ch opt m w = (r, m', w')"
    by (cases "publish E ch opt m w")
  have all: "filter (served w ch) tys = tys"
    using assms(4) by (simp add: served_def)
  note pv = publish_valid[OF assms(1), of opt w, unfolded p assms(2) all]
  have r: "r = Inr ()"
    using pv by simp
  have tr: "trace w' = trace w @ ?new"
    using pv by simp
  have inf: "inFlightMessageIds w' k =
            (if \<exists>ty \<in> set tys. served w ch ty \<and> k = (ch, ty)
             then insert (messageId (header m)) (inFlightMessageIds w k)
             else inFlightMessageIds w k)" for k
    using pv by (simp del: split_paired_All)
  have ne: "new_events w w' = ?new"
    using tr by (rule new_events_append)
  have wr: "transport_writes ?new = map (\<lambda>j. (?c, ch, stringify E (?copy j))) [0..<length tys]"
    by (simp add: transport_writes_fanout)
  have rc: "map (\<lambda>j. recipient (?copy j)) [0..<length tys] = map Some tys"
    by (rule nth_equalityI) (simp_all add: wire_copy_def)
  have ds: "distinct (map (\<lambda>j. recipient (?copy j)) [0..<length tys])"
    unfolding rc using assms(3) by (simp add: distinct_map)
  have before: "\<exists>pre post.
                   ?new = pre @ ClientPublish ?c ch (stringify E (?copy j)) # post \<and>
                   length (transport_writes pre) = j \<and>
                   AddMessageIdToTypeSet ch (tys ! j) (messageId (header m)) \<in> set pre"
    if "j < length tys" for j
  proof -
    from fanout_reserved_before[OF that, of E ?c ch m "dates w" "dateCalls w"]
    obtain pre post where
      eq: "?F = pre @ ClientPublish ?c ch (stringify E (?copy j)) # post"
      and len: "length (transport_writes pre) = j"
      and res: "AddMessageIdToTypeSet ch (tys ! j) (messageId (header m)) \<in> set pre"
      by blast
    have "?new = (CreateClient ?c # pre) @ ClientPublish ?c ch (stringify E (?copy j)) #
                 (post @ [ClientQuit ?c])"
      using eq by simp
    moreover have "length (transport_writes (CreateClient ?c # pre)) = j"
      using len by (simp add: transport_writes_def)
    moreover have "AddMessageIdToTypeSet ch (tys ! j) (messageId (header m)) \<in>
                   set (CreateClient ?c # pre)"
      using res by simp
    ultimately show ?thesis by blast
  qed
  have fields: "messageId (header (?copy j)) = messageId (header m) \<and>
                payload (?copy j) = payload m \<and> channel (?copy j) = Some ch" for j
    by (simp add: wire_copy_def)
  have fin: "\<forall>ty \<in> set tys. messageId (header m) \<in> inFlightMessageIds w' (ch, ty)"
    using assms(4) by (auto simp: inf served_def)
  have main:
    "let new = new_events w w';
         c = nextClient w;
         copy = (\<lambda>j. wire_copy m ch (dates w (dateCalls w + j)) (tys ! j))
     in trace w' = trace w @ new \<and>
        transport_writes new = map (\<lambda>j. (c, ch, stringify E (copy j))) [0..<length tys] \<and>
        length (transport_writes new) = length tys \<and>
        map (\<lambda>j. recipient (copy j)) [0..<length tys] = map Some tys \<and>
        distinct (map (\<lambda>j. recipient (copy j)) [0..<length tys]) \<and>
        (\<forall>j < length tys.
           messageId (header (copy j)) = messageId (header m) \<and>
           payload (copy j) = payload m \<and>
           channel (copy j) = Some ch \<and>
           (\<exists>pre post.
              new = pre @ ClientPublish c ch (stringify E (copy j)) # post \<and>
              length (transport_writes pre) = j \<and>
              AddMessageIdToTypeSet ch (tys ! j) (messageId (header m)) \<in> set pre)) \<and>
        (\<forall>ty \<in> set tys. messageId (header m) \<in> inFlightMessageIds w' (ch, ty))"
    unfolding Let_def ne
    using tr wr rc ds before fields fin by simp
  show ?thesis
    unfolding p r by (intro exI[of _ m'] exI[of _ w'] conjI refl) (rule main)
qed

theorem publish_fans_out_witness:
  "\<exists>m' w'. publish example_env ''orders'' \<lparr>subscriberType = None\<rparr> example_message example_world
             = (Inr (), m', w') \<and>
           transport_writes (new_events example_world w') =
             [(0, ''orders'', ''m1>worker''), (0, ''orders'', ''m1>audit'')] \<and>
           ''m1'' \<in> inFlightMessageIds w' (''orders'', ''worker'') \<and>
           ''m1'' \<in> inFlightMessageIds w' (''orders'', ''audit'')"
proof -
  have h1: "tryValidate example_env (example_message\<lparr>channel := Some ''orders''\<rparr>)"
    by (simp add: example_defs)
  have h2: "getSubscriberTypes example_world ''orders'' = [''worker'', ''audit'']"
    by (simp add: example_defs getSubscriberTypes_def)
  have h3: "distinct [''worker'', ''audit'']"
    by simp
  have h4: "\<forall>ty \<in> set [''worker'', ''audit''].
              getChannelSubscribersForType example_world ''orders'' ty \<noteq> []"
    by (simp add: example_defs getChannelSubscribersForType_def)
  from publish_fans_out[OF h1 h2 h3 h4, of "\<lparr>subscriberType = None\<rparr>"]
  obtain m' w' where
    p: "publish example_env ''orders'' \<lparr>subscriberType = None\<rparr> example_message example_world
          = (Inr (), m', w')"
    and wr: "transport_writes (new_events example_world w') =
               map (\<lambda>j. (nextClient example_world, ''orders'',
                          stringify example_env
                            (wire_copy example_message ''orders''
                               (dates example_world (dateCalls example_world + j))
                               ([''worker'', ''audit''] ! j))))
                 [0..<length [''worker'', ''audit'']]"
    and fin: "\<forall>ty \<in> set [''worker'', ''audit''].
                messageId (header example_message) \<in> inFlightMessageIds w' (''orders'', ty)"
    unfolding Let_def by blast
  have "transport_writes (new_events example_world w') =
          [(0, ''orders'', ''m1>worker''), (0, ''orders'', ''m1>audit'')]"
    unfolding wr by (simp add: example_defs wire_copy_def upt_rec)
  moreover have "''m1'' \<in> inFlightMessageIds w' (''orders'', ''worker'')"
    "''m1'' \<in> inFlightMessageIds w' (''orders'', ''audit'')"
    using fin by (simp_all add: example_defs)
  ultimately show ?thesis
    using p by blast
qed

text \<open>
  The sentence of C1 without the condition on validation does not hold: in the scenario
  the registry lists two types for \<^verbatim>\<open>orders\<close>, each with a subscriber, and for the
  message without an identifier \<^verbatim>\<open>publish\<close> throws, writes nothing to the transport
  and reserves nothing.
\<close>

theorem publish_invalid_no_copies:
  "getSubscriberTypes example_world ''orders'' = [''worker'', ''audit''] \<and>
   getChannelSubscribersForType example_world ''orders'' ''worker'' = [''p1''] \<and>
   getChannelSubscribersForType example_world ''orders'' ''audit'' = [''p1''] \<and>
   fst (publish example_env ''orders'' \<lparr>subscriberType = None\<rparr> bad_message example_world) =
     Inl ''[Message] did not pass the validation checks: [header.messageId is required]'' \<and>
   transport_writes
     (trace (snd (snd (publish example_env ''orders'' \<lparr>subscriberType = None\<rparr> bad_message
                         example_world)))) = [] \<and>
   reservations
     (trace (snd (snd (publish example_env ''orders'' \<lparr>subscriberType = None\<rparr> bad_message
                         example_world)))) = []"
  by (simp add: publish_def validation_error_def example_defs effect_defs Let_def
        getSubscriberTypes_def getChannelSubscribersForType_def)

lemma publish_invalid:
  assumes "\<not> tryValidate E (m\<lparr>channel := Some ch\<rparr>)"
  shows "publish E ch opt m w =
           (Inl (validation_error E (m\<lparr>channel := Some ch\<rparr>)), m\<lparr>channel := Some ch\<rparr>,
            w\<lparr>nextClient := Suc (nextClient w), trace := trace w @ [CreateClient (nextClient w)]\<rparr>)"
  using assms by (simp add: publish_def Let_def effect_defs)

text \<open>
  C7, as the code has it. The transport writes of \<^verbatim>\<open>publish\<close> are the copies for the
  served types of the channel and its reservations are those for the served types (and
  there are none of either when the message fails validation). So on a channel without
  registered types nothing is written, nothing is reserved and the in-flight sets stay as
  they are; for a type whose list of subscribers is empty nothing is written, nothing is
  reserved and its in-flight set stays as it is. The call returns without error whenever
  the message passes validation.
\<close>

theorem publish_skips_unserved:
  "let tys = getSubscriberTypes w ch;
       stys = filter (served w ch) tys;
       valid = tryValidate E (m\<lparr>channel := Some ch\<rparr>);
       r = fst (publish E ch opt m w);
       w' = snd (snd (publish E ch opt m w));
       new = new_events w w'
   in trace w' = trace w @ new \<and>
      (valid \<longrightarrow> r = Inr ()) \<and>
      transport_writes new =
        (if valid
         then map (\<lambda>j. (nextClient w, ch,
                         stringify E (wire_copy m ch (dates w (dateCalls w + j)) (stys ! j))))
                [0..<length stys]
         else []) \<and>
      reservations new =
        (if valid then map (\<lambda>ty. (ch, ty, messageId (header m))) stys else []) \<and>
      (tys = [] \<longrightarrow>
         transport_writes new = [] \<and> reservations new = [] \<and>
         inFlightMessageIds w' = inFlightMessageIds w) \<and>
      (\<forall>ty. getChannelSubscribersForType w ch ty = [] \<longrightarrow>
         ty \<notin> set stys \<and>
         (\<forall>mid. (ch, ty, mid) \<notin> set (reservations new)) \<and>
         inFlightMessageIds w' (ch, ty) = inFlightMessageIds w (ch, ty))"
proof (cases "tryValidate E (m\<lparr>channel := Some ch\<rparr>)")
  case False
  let ?w' = "w\<lparr>nextClient := Suc (nextClient w), trace := trace w @ [CreateClient (nextClient w)]\<rparr>"
  have ne: "new_events w ?w' = [CreateClient (nextClient w)]"
    by (rule new_events_append) simp
  show ?thesis
    unfolding Let_def publish_invalid[OF False]
    using False by (simp add: ne served_def)
next
  case True
  let ?c = "nextClient w"
  let ?tys = "getSubscriberTypes w ch"
  let ?stys = "filter (served w ch) ?tys"
  let ?w' = "snd (snd (publish E ch opt m w))"
  let ?new = "[CreateClient ?c] @ fanout_events E ?c ch m (dates w) (dateCalls w) ?stys @
              [ClientQuit ?c]"
  note pv = publish_valid[OF True, of opt w]
  have r: "fst (publish E ch opt m w) = Inr ()"
    using pv by simp
  have tr: "trace ?w' = trace w @ ?new"
    using pv by simp
  have inf: "inFlightMessageIds ?w' k =
            (if \<exists>ty \<in> set ?tys. served w ch ty \<and> k = (ch, ty)
             then insert (messageId (header m)) (inFlightMessageIds w k)
             else inFlightMessageIds w k)" for k
    using pv by (simp del: split_paired_All)
  have ne: "new_events w ?w' = ?new"
    using tr by (rule new_events_append)
  have wr: "transport_writes ?new =
              map (\<lambda>j. (?c, ch, stringify E (wire_copy m ch (dates w (dateCalls w + j)) (?stys ! j))))
                [0..<length ?stys]"
    by (simp add: transport_writes_fanout)
  have rs: "reservations ?new = map (\<lambda>ty. (ch, ty, messageId (header m))) ?stys"
    by (simp add: reservations_fanout)
  have none: "inFlightMessageIds ?w' = inFlightMessageIds w" if "?tys = []"
    using that by (simp add: fun_eq_iff inf del: split_paired_All)
  have unserved: "ty \<notin> set ?stys \<and>
         (\<forall>mid. (ch, ty, mid) \<notin> set (reservations ?new)) \<and>
         inFlightMessageIds ?w' (ch, ty) = inFlightMessageIds w (ch, ty)"
    if "getChannelSubscribersForType w ch ty = []" for ty
  proof -
    from that have ns: "\<not> served w ch ty" by (simp add: served_def)
    then have "ty \<notin> set ?stys" by simp
    moreover from this have "(ch, ty, mid) \<notin> set (reservations ?new)" for mid
      unfolding rs by auto
    moreover have "inFlightMessageIds ?w' (ch, ty) = inFlightMessageIds w (ch, ty)"
      using ns by (simp add: inf)
    ultimately show ?thesis by blast
  qed
  have empty: "transport_writes ?new = [] \<and> reservations ?new = []" if "?tys = []"
    unfolding wr rs using that by simp
  show ?thesis
    unfolding Let_def ne r
    using True tr wr rs none unserved empty by simp
qed

theorem publish_skips_unserved_witness:
  "fst (publish example_env ''mixed'' \<lparr>subscriberType = None\<rparr> example_message example_world)
     = Inr () \<and>
   getChannelSubscribersForType example_world ''mixed'' ''idle'' = [] \<and>
   transport_writes
     (new_events example_world
        (snd (snd (publish example_env ''mixed'' \<lparr>subscriberType = None\<rparr> example_message
                     example_world)))) = [(0, ''mixed'', ''m1>worker'')] \<and>
   reservations
     (new_events example_world
        (snd (snd (publish example_env ''mixed'' \<lparr>subscriberType = None\<rparr> example_message
                     example_world)))) = [(''mixed'', ''worker'', ''m1'')] \<and>
   inFlightMessageIds
     (snd (snd (publish example_env ''mixed'' \<lparr>subscriberType = None\<rparr> example_message
                  example_world))) (''mixed'', ''idle'') = {}"
proof -
  have v: "tryValidate example_env (example_message\<lparr>channel := Some ''mixed''\<rparr>)"
    by (simp add: example_defs)
  have t: "filter (served example_world ''mixed'') (getSubscriberTypes example_world ''mixed'')
             = [''worker'']"
    by (simp add: example_defs getSubscriberTypes_def served_def getChannelSubscribersForType_def)
  have i: "getChannelSubscribersForType example_world ''mixed'' ''idle'' = []"
    by (simp add: example_defs getChannelSubscribersForType_def)
  from publish_skips_unserved[of example_world "''mixed''" example_env example_message
         "\<lparr>subscriberType = None\<rparr>"]
  show ?thesis
    unfolding Let_def t using v i
    by (simp add: example_defs wire_copy_def)
qed

text \<open>
  The sentence of C7 promises a return without error for every call on a channel
  without subscriber types. In the scenario channel \<^verbatim>\<open>nobody\<close> has no types, and for
  the message without an identifier \<^verbatim>\<open>publish\<close> throws the validation error.
\<close>

theorem publish_no_types_invalid_throws:
  "getSubscriberTypes example_world ''nobody'' = [] \<and>
   fst (publish example_env ''nobody'' \<lparr>subscriberType = None\<rparr> bad_message example_world) =
     Inl ''[Message] did not pass the validation checks: [header.messageId is required]''"
  by (simp add: publish_def validation_error_def example_defs effect_defs Let_def
        getSubscriberTypes_def)

text \<open>
  C8 at the input where it fails. \<^verbatim>\<open>publish\<close> and \<^verbatim>\<open>publishAndWaitForResponse\<close> both open
  their publishing connection before they validate the message, and throw on a message
  that fails validation without closing it: the connection is created and never quit.
\<close>

theorem invalid_message_leaves_connection_open:
  "trace (snd (snd (publish example_env ''orders'' \<lparr>subscriberType = None\<rparr> bad_message
                      example_world))) = [CreateClient 0] \<and>
   trace (snd (snd (publishAndWaitForResponse example_env ''orders'' ''resp''
                      \<lparr>subscriberType = Some ''svcA''\<rparr> bad_message example_world)))
     = [CreateClient 0] \<and>
   ClientQuit 0 \<notin>
     set (trace (snd (snd (publish example_env ''orders'' \<lparr>subscriberType = None\<rparr> bad_message
                             example_world)))) \<and>
   ClientQuit 0 \<notin>
     set (trace (snd (snd (publishAndWaitForResponse example_env ''orders'' ''resp''
                             \<lparr>subscriberType = Some ''svcA''\<rparr> bad_message example_world))))"
  by (simp add: publish_def publishAndWaitForResponse_def example_defs effect_defs Let_def)

section \<open>Subscribing\<close>

lemma subscribe_Inr:
  assumes "subscribe ch opt w0 = (Inr s, w1)"
  shows "sub_channel s = ch \<and> subscriberType opt = Some (sub_type s) \<and> sub_type s \<noteq> [] \<and>
         sub_client s = nextClient w0 \<and> ClientSubscribe (sub_client s) ch \<in> set (trace w1)"
  using assms
  by (cases "subscriberType opt")
     (auto simp: subscribe_def falsy_def effect_defs Let_def split: if_splits)

lemma onMessage_trace:
  "trace (subscribe_onMessage E s chan raw w) =
     trace w @ [ConsoleLog (''RECEIVED MESSAGE FROM ['' @ chan @ '']'')] @
     (if channel (createFromString E raw) = Some chan \<and>
         recipient (createFromString E raw) = Some (sub_type s)
      then [RemoveMessageIdFromTypeSet chan (sub_type s) (messageId (header (createFromString E raw)))]
      else []) @
     (if channel (createFromString E raw) = Some chan \<and>
         recipient (createFromString E raw) = Some (sub_type s) \<and>
         messageId (header (createFromString E raw)) \<in> inFlightMessageIds w (chan, sub_type s)
      then [Callback None (createFromString E raw)] else [])"
  by (simp add: subscribe_onMessage_def removeMessageIdFromTypeSet_def effect_defs Let_def)

lemma onMessage_inFlight:
  "inFlightMessageIds (subscribe_onMessage E s chan raw w) =
     (if channel (createFromString E raw) = Some chan \<and>
         recipient (createFromString E raw) = Some (sub_type s) \<and>
         messageId (header (createFromString E raw)) \<in> inFlightMessageIds w (chan, sub_type s)
      then (inFlightMessageIds w)
             ((chan, sub_type s) :=
                inFlightMessageIds w (chan, sub_type s) - {messageId (header (createFromString E raw))})
      else inFlightMessageIds w)"
  by (auto simp: subscribe_onMessage_def removeMessageIdFromTypeSet_def effect_defs Let_def
      fun_eq_iff)

text \<open>
  C3. Let \<^verbatim>\<open>subscribe(channel, option, callback)\<close> have set up its subscription, and let
  the transport deliver a raw text on the subscribed channel. The callback is invoked,
  once, with no error and the deserialised message, exactly when the message's channel
  is the subscribed channel, its recipient is \<^verbatim>\<open>option.subscriberType\<close> and the claim of
  its identifier succeeds. Otherwise there is no callback, the in-flight sets are as
  before, and nothing happens but the console line and (on a match) the claim that
  failed.
\<close>

theorem subscribe_callback_iff:
  assumes "subscribe ch opt w0 = (Inr s, w1)"
  shows "let msg = createFromString E raw;
             claimed = fst (removeMessageIdFromTypeSet ch (sub_type s) (messageId (header msg)) w);
             accepted = (channel msg = Some ch \<and> recipient msg = subscriberType opt \<and> claimed);
             w' = subscribe_onMessage E s (sub_channel s) raw w
         in trace w' = trace w @ new_events w w' \<and>
            callbacks (new_events w w') = (if accepted then [(None, msg)] else []) \<and>
            (\<not> accepted \<longrightarrow>
               inFlightMessageIds w' = inFlightMessageIds w \<and>
               set (new_events w w') \<subseteq>
                 {ConsoleLog (''RECEIVED MESSAGE FROM ['' @ ch @ '']''),
                  RemoveMessageIdFromTypeSet ch (sub_type s) (messageId (header msg))})"
proof -
  from subscribe_Inr[OF assms]
  have s: "subscriberType opt = Some (sub_type s)" and c: "sub_channel s = ch"
    by simp_all
  have ne: "new_events w (subscribe_onMessage E s ch raw w) =
     [ConsoleLog (''RECEIVED MESSAGE FROM ['' @ ch @ '']'')] @
     (if channel (createFromString E raw) = Some ch \<and>
         recipient (createFromString E raw) = Some (sub_type s)
      then [RemoveMessageIdFromTypeSet ch (sub_type s) (messageId (header (createFromString E raw)))]
      else []) @
     (if channel (createFromString E raw) = Some ch \<and>
         recipient (createFromString E raw) = Some (sub_type s) \<and>
         messageId (header (createFromString E raw)) \<in> inFlightMessageIds w (ch, sub_type s)
      then [Callback None (createFromString E raw)] else [])"
    by (rule new_events_append) (rule onMessage_trace)
  have tr: "trace (subscribe_onMessage E s ch raw w) =
           trace w @ new_events w (subscribe_onMessage E s ch raw w)"
    unfolding ne by (rule onMessage_trace)
  have cl: "fst (removeMessageIdFromTypeSet ch (sub_type s) mid w) =
            (mid \<in> inFlightMessageIds w (ch, sub_type s))" for mid
    by (simp add: removeMessageIdFromTypeSet_def)
  show ?thesis
    unfolding Let_def cl s c onMessage_inFlight
    using tr by (auto simp: ne)
qed

theorem subscribe_callback_iff_witness:
  "let s = \<lparr>sub_client = 0, sub_channel = ''resp'', sub_type = ''svcA''\<rparr>;
       w1 = snd (subscribe ''resp'' \<lparr>subscriberType = Some ''svcA''\<rparr> example_world);
       w2 = subscribe_onMessage example_env s ''resp'' ''r1'' w1;
       w3 = subscribe_onMessage example_env s ''resp'' ''r1'' w2
   in subscribe ''resp'' \<lparr>subscriberType = Some ''svcA''\<rparr> example_world = (Inr s, w1) \<and>
      callbacks (new_events w1 w2) = [(None, createFromString example_env ''r1'')] \<and>
      callbacks (new_events w2 w3) = [] \<and>
      inFlightMessageIds w3 = inFlightMessageIds w2"
proof -
  let ?s = "\<lparr>sub_client = 0, sub_channel = ''resp'', sub_type = ''svcA''\<rparr>"
  let ?w1 = "snd (subscribe ''resp'' \<lparr>subscriberType = Some ''svcA''\<rparr> example_world)"
  let ?w2 = "subscribe_onMessage example_env ?s ''resp'' ''r1'' ?w1"
  have h: "subscribe ''resp'' \<lparr>subscriberType = Some ''svcA''\<rparr> example_world = (Inr ?s, ?w1)"
    by (simp add: subscribe_def falsy_def example_defs effect_defs Let_def)
  have i1: "inFlightMessageIds ?w1 (''resp'', ''svcA'') = {''r1''}"
    by (simp add: subscribe_def falsy_def example_defs effect_defs Let_def)
  have i2: "inFlightMessageIds ?w2 (''resp'', ''svcA'') = {}"
    by (simp add: onMessage_inFlight i1) (simp add: example_defs)
  have m: "channel (createFromString example_env ''r1'') = Some ''resp''"
    "recipient (createFromString example_env ''r1'') = Some ''svcA''"
    "messageId (header (createFromString example_env ''r1'')) = ''r1''"
    by (simp_all add: example_defs)
  from subscribe_callback_iff[OF h, of example_env "''r1''" ?w1]
       subscribe_callback_iff[OF h, of example_env "''r1''" ?w2]
  show ?thesis
    unfolding Let_def using h
    by (simp add: removeMessageIdFromTypeSet_def i1 i2 m)
qed

section \<open>Publishing and waiting for the response\<close>

lemma publish_loop_messageId:
  "publish_loop E c ch tys (m, w) = (m', w') \<Longrightarrow> messageId (header m') = messageId (header m)"
  using publish_loop_frame[of E c ch tys m w] by simp

text \<open>What is known once the executor has installed its handlers.\<close>

lemma pawr_listening:
  assumes "publishAndWaitForResponse E ch rch opt m w0 = (r, m', w1)"
    and "listener r = Some wt"
  shows "promise r = Pending \<and> executorThrew r = None \<and>
         subscriberType opt = Some (w_type wt) \<and> w_type wt \<noteq> [] \<and>
         w_request wt = m' \<and> messageId (header m') = messageId (header m) \<and>
         ClientSubscribe (w_sub wt) rch \<in> set (trace w1)"
proof -
  let ?m0 = "m\<lparr>channel := Some ch\<rparr>"
  let ?w1 = "snd (createClient w0)"
  let ?L = "publish_loop E (nextClient w0) ch (getSubscriberTypes ?w1 ch) (?m0, ?w1)"
  have v: "tryValidate E ?m0"
    using assms
    by (cases "tryValidate E ?m0")
       (auto simp: publishAndWaitForResponse_def Let_def split: prod.splits)
  have f: "\<not> falsy (subscriberType opt)"
    using assms v
    by (cases "falsy (subscriberType opt)")
       (auto simp: publishAndWaitForResponse_def Let_def split: prod.splits)
  from f obtain ty where ty: "subscriberType opt = Some ty" "ty \<noteq> []"
    by (cases "subscriberType opt") (auto simp: falsy_def)
  have mid: "messageId (header (fst ?L)) = messageId (header m)"
    using publish_loop_frame[of E "nextClient w0" ch "getSubscriberTypes ?w1 ch" ?m0 ?w1]
    by simp
  show ?thesis
    using assms v f ty mid
    by (auto simp: publishAndWaitForResponse_def Let_def effect_defs split: prod.splits)
qed

lemma pawr_onMessage_promise:
  "fst (pawr_onMessage E wt chan raw (p, w)) =
     (if channel (createFromString E raw) = Some chan \<and>
         recipient (createFromString E raw) = Some (w_type wt) \<and>
         messageId (header (createFromString E raw)) \<in> inFlightMessageIds w (chan, w_type wt)
      then resolve p (createFromString E raw) else p)"
  by (simp add: pawr_onMessage_def removeMessageIdFromTypeSet_def effect_defs Let_def)

lemma pawr_onMessage_trace:
  "trace (snd (pawr_onMessage E wt chan raw (p, w))) =
     trace w @ [ConsoleLog (''RECEIVED MESSAGE FROM ['' @ chan @ '']'')] @
     (if channel (createFromString E raw) = Some chan \<and>
         recipient (createFromString E raw) = Some (w_type wt)
      then [RemoveMessageIdFromTypeSet chan (w_type wt) (messageId (header (createFromString E raw)))]
      else []) @
     (if channel (createFromString E raw) = Some chan \<and>
         recipient (createFromString E raw) = Some (w_type wt) \<and>
         messageId (header (createFromString E raw)) \<in> inFlightMessageIds w (chan, w_type wt)
      then [ClientUnsubscribe (w_sub wt) chan, ClientQuit (w_sub wt)] else [])"
  by (simp add: pawr_onMessage_def removeMessageIdFromTypeSet_def effect_defs Let_def)

lemma pawr_onMessage_inFlight:
  "inFlightMessageIds (snd (pawr_onMessage E wt chan raw (p, w))) =
     (if channel (createFromString E raw) = Some chan \<and>
         recipient (createFromString E raw) = Some (w_type wt) \<and>
         messageId (header (createFromString E raw)) \<in> inFlightMessageIds w (chan, w_type wt)
      then (inFlightMessageIds w)
             ((chan, w_type wt) :=
                inFlightMessageIds w (chan, w_type wt) - {messageId (header (createFromString E raw))})
      else inFlightMessageIds w)"
  by (auto simp: pawr_onMessage_def removeMessageIdFromTypeSet_def effect_defs Let_def
      fun_eq_iff)

text \<open>
  C6. Let \<^verbatim>\<open>publishAndWaitForResponse\<close> have installed its handlers; the caller's promise
  is pending then. When the transport delivers a raw text on the response channel and
  the deserialised message has that channel, has \<^verbatim>\<open>option.subscriberType\<close> as recipient
  and its identifier is claimed with success, the handler unsubscribes the response
  connection from the response channel, closes it, and the promise is fulfilled with
  that message. In every other case the promise stays pending, the connection is left
  alone, the in-flight sets are as before, and nothing happens but the console line and
  (on a match) the claim that failed.
\<close>

theorem pawr_resolves_on_claimed_response:
  assumes "publishAndWaitForResponse E ch rch opt m w0 = (r, m', w1)"
    and "listener r = Some wt"
  shows "let response = createFromString E raw;
             claimed = fst (removeMessageIdFromTypeSet rch (w_type wt)
                              (messageId (header response)) w);
             accepted = (channel response = Some rch \<and>
                         recipient response = subscriberType opt \<and> claimed);
             p' = fst (pawr_onMessage E wt rch raw (promise r, w));
             w' = snd (pawr_onMessage E wt rch raw (promise r, w))
         in promise r = Pending \<and>
            ClientSubscribe (w_sub wt) rch \<in> set (trace w1) \<and>
            trace w' = trace w @ new_events w w' \<and>
            (accepted \<longrightarrow>
               p' = Fulfilled response \<and>
               new_events w w' =
                 [ConsoleLog (''RECEIVED MESSAGE FROM ['' @ rch @ '']''),
                  RemoveMessageIdFromTypeSet rch (w_type wt) (messageId (header response)),
                  ClientUnsubscribe (w_sub wt) rch,
                  ClientQuit (w_sub wt)]) \<and>
            (\<not> accepted \<longrightarrow>
               p' = Pending \<and>
               inFlightMessageIds w' = inFlightMessageIds w \<and>
               set (new_events w w') \<subseteq>
                 {ConsoleLog (''RECEIVED MESSAGE FROM ['' @ rch @ '']''),
                  RemoveMessageIdFromTypeSet rch (w_type wt) (messageId (header response))})"
proof -
  from pawr_listening[OF assms]
  have pend: "promise r = Pending" and s: "subscriberType opt = Some (w_type wt)"
    and sub: "ClientSubscribe (w_sub wt) rch \<in> set (trace w1)"
    by simp_all
  let ?w' = "snd (pawr_onMessage E wt rch raw (Pending, w))"
  have ne: "new_events w ?w' =
     [ConsoleLog (''RECEIVED MESSAGE FROM ['' @ rch @ '']'')] @
     (if channel (createFromString E raw) = Some rch \<and>
         recipient (createFromString E raw) = Some (w_type wt)
      then [RemoveMessageIdFromTypeSet rch (w_type wt) (messageId (header (createFromString E raw)))]
      else []) @
     (if channel (createFromString E raw) = Some rch \<and>
         recipient (createFromString E raw) = Some (w_type wt) \<and>
         messageId (header (createFromString E raw)) \<in> inFlightMessageIds w (rch, w_type wt)
      then [ClientUnsubscribe (w_sub wt) rch, ClientQuit (w_sub wt)] else [])"
    by (rule new_events_append) (rule pawr_onMessage_trace)
  have tr: "trace ?w' = trace w @ new_events w ?w'"
    unfolding ne by (rule pawr_onMessage_trace)
  have cl: "fst (removeMessageIdFromTypeSet rch (w_type wt) mid w) =
            (mid \<in> inFlightMessageIds w (rch, w_type wt))" for mid
    by (simp add: removeMessageIdFromTypeSet_def)
  show ?thesis
    unfolding Let_def cl s pend pawr_onMessage_inFlight pawr_onMessage_promise
    using tr sub by (auto simp: ne resolve_def)
qed

theorem pawr_resolves_on_claimed_response_witness:
  "let call = publishAndWaitForResponse example_env ''orders'' ''resp''
                \<lparr>subscriberType = Some ''svcA''\<rparr> example_message example_world;
       r = fst call;
       w1 = snd (snd call);
       wt = \<lparr>w_sub = Suc 0, w_type = ''svcA'', w_request = fst (snd call)\<rparr>;
       first = pawr_onMessage example_env wt ''resp'' ''r1'' (promise r, w1);
       again = pawr_onMessage example_env wt ''resp'' ''r1'' (promise r, snd first)
   in listener r = Some wt \<and>
      fst first = Fulfilled (createFromString example_env ''r1'') \<and>
      new_events w1 (snd first) =
        [ConsoleLog ''RECEIVED MESSAGE FROM [resp]'',
         RemoveMessageIdFromTypeSet ''resp'' ''svcA'' ''r1'',
         ClientUnsubscribe (Suc 0) ''resp'', ClientQuit (Suc 0)] \<and>
      fst again = Pending"
proof -
  let ?call = "publishAndWaitForResponse example_env ''orders'' ''resp''
                \<lparr>subscriberType = Some ''svcA''\<rparr> example_message example_world"
  let ?r = "fst ?call"
  let ?w1 = "snd (snd ?call)"
  let ?wt = "\<lparr>w_sub = Suc 0, w_type = ''svcA'', w_request = fst (snd ?call)\<rparr>"
  let ?first = "pawr_onMessage example_env ?wt ''resp'' ''r1'' (Pending, ?w1)"
  let ?again = "pawr_onMessage example_env ?wt ''resp'' ''r1'' (Pending, snd ?first)"
  let ?resp = "createFromString example_env ''r1''"
  have c: "?call = (?r, fst (snd ?call), ?w1)"
    by simp
  have l: "listener ?r = Some ?wt"
    by (simp add: publishAndWaitForResponse_def falsy_def example_defs effect_defs Let_def
          getSubscriberTypes_def getChannelSubscribersForType_def addMessageIdToTypeSet_def)
  have pend: "promise ?r = Pending"
    using pawr_listening[OF c l] by simp
  have i1: "inFlightMessageIds ?w1 (''resp'', ''svcA'') = {''r1''}"
    by (simp add: publishAndWaitForResponse_def falsy_def example_defs effect_defs Let_def
          getSubscriberTypes_def getChannelSubscribersForType_def addMessageIdToTypeSet_def)
  have m: "channel ?resp = Some ''resp''" "recipient ?resp = Some ''svcA''"
    "messageId (header ?resp) = ''r1''"
    by (simp_all add: example_defs)
  have i2: "inFlightMessageIds (snd ?first) (''resp'', ''svcA'') = {}"
    by (simp add: pawr_onMessage_inFlight i1 m)
  have acc1: "channel ?resp = Some ''resp'' \<and>
              recipient ?resp = subscriberType \<lparr>subscriberType = Some ''svcA''\<rparr> \<and>
              fst (removeMessageIdFromTypeSet ''resp'' (w_type ?wt) (messageId (header ?resp)) ?w1)"
    by (simp add: removeMessageIdFromTypeSet_def i1 m)
  have acc2: "\<not> (channel ?resp = Some ''resp'' \<and>
              recipient ?resp = subscriberType \<lparr>subscriberType = Some ''svcA''\<rparr> \<and>
              fst (removeMessageIdFromTypeSet ''resp'' (w_type ?wt) (messageId (header ?resp))
                     (snd ?first)))"
    by (simp add: removeMessageIdFromTypeSet_def i2 m)
  from pawr_resolves_on_claimed_response[OF c l, of "''r1''" ?w1, unfolded Let_def pend] acc1
  have one: "fst ?first = Fulfilled ?resp \<and>
             new_events ?w1 (snd ?first) =
               [ConsoleLog (''RECEIVED MESSAGE FROM ['' @ ''resp'' @ '']''),
                RemoveMessageIdFromTypeSet ''resp'' (w_type ?wt) (messageId (header ?resp)),
                ClientUnsubscribe (w_sub ?wt) ''resp'', ClientQuit (w_sub ?wt)]"
    by blast
  from pawr_resolves_on_claimed_response[OF c l, of "''r1''" "snd ?first", unfolded Let_def pend]
       acc2
  have two: "fst ?again = Pending"
    by blast
  show ?thesis
    unfolding Let_def pend using l one two by (simp add: m)
qed

text \<open>
  C10. The handler does not compare the identifier of the response with the identifier
  of the request. A response on the response channel for \<^verbatim>\<open>option.subscriberType\<close>
  whose claim succeeds fulfils the caller's promise also when its identifier differs from
  the request's; what the handler does is the same whatever the request was.
\<close>

theorem pawr_no_correlation:
  assumes "publishAndWaitForResponse E ch rch opt m w0 = (r, m', w1)"
    and "listener r = Some wt"
    and "channel (createFromString E raw) = Some rch"
    and "recipient (createFromString E raw) = subscriberType opt"
    and "fst (removeMessageIdFromTypeSet rch (w_type wt)
                (messageId (header (createFromString E raw))) w)"
    and "messageId (header (createFromString E raw)) \<noteq> messageId (header m)"
  shows "fst (pawr_onMessage E wt rch raw (promise r, w)) = Fulfilled (createFromString E raw) \<and>
         messageId (header (createFromString E raw)) \<noteq> messageId (header (w_request wt)) \<and>
         (\<forall>req. pawr_onMessage E (wt\<lparr>w_request := req\<rparr>) rch raw (promise r, w) =
                pawr_onMessage E wt rch raw (promise r, w))"
proof -
  from pawr_listening[OF assms(1,2)]
  have pend: "promise r = Pending" and s: "subscriberType opt = Some (w_type wt)"
    and req: "messageId (header (w_request wt)) = messageId (header m)"
    by simp_all
  have "fst (pawr_onMessage E wt rch raw (promise r, w)) = Fulfilled (createFromString E raw)"
    using assms(3-5)
    by (simp add: pawr_onMessage_promise pend s resolve_def removeMessageIdFromTypeSet_def)
  moreover have "pawr_onMessage E (wt\<lparr>w_request := req\<rparr>) rch raw (promise r, w) =
                 pawr_onMessage E wt rch raw (promise r, w)" for req
    by (simp add: pawr_onMessage_def Let_def split: prod.splits)
  ultimately show ?thesis
    using assms(6) req by simp
qed

theorem pawr_no_correlation_witness:
  "let call = publishAndWaitForResponse example_env ''orders'' ''resp''
                \<lparr>subscriberType = Some ''svcA''\<rparr> example_message example_world;
       r = fst call;
       w1 = snd (snd call);
       wt = \<lparr>w_sub = Suc 0, w_type = ''svcA'', w_request = fst (snd call)\<rparr>
   in listener r = Some wt \<and>
      messageId (header (w_request wt)) = ''m1'' \<and>
      messageId (header (createFromString example_env ''r1'')) = ''r1'' \<and>
      fst (pawr_onMessage example_env wt ''resp'' ''r1'' (promise r, w1)) =
        Fulfilled (createFromString example_env ''r1'')"
proof -
  let ?call = "publishAndWaitForResponse example_env ''orders'' ''resp''
                \<lparr>subscriberType = Some ''svcA''\<rparr> example_message example_world"
  let ?r = "fst ?call"
  let ?w1 = "snd (snd ?call)"
  let ?wt = "\<lparr>w_sub = Suc 0, w_type = ''svcA'', w_request = fst (snd ?call)\<rparr>"
  have c: "?call = (?r, fst (snd ?call), ?w1)"
    by simp
  have l: "listener ?r = Some ?wt"
    by (simp add: publishAndWaitForResponse_def falsy_def example_defs effect_defs Let_def
          getSubscriberTypes_def getChannelSubscribersForType_def addMessageIdToTypeSet_def)
  have i1: "inFlightMessageIds ?w1 (''resp'', ''svcA'') = {''r1''}"
    by (simp add: publishAndWaitForResponse_def falsy_def example_defs effect_defs Let_def
          getSubscriberTypes_def getChannelSubscribersForType_def addMessageIdToTypeSet_def)
  have m: "channel (createFromString example_env ''r1'') = Some ''resp''"
    "recipient (createFromString example_env ''r1'') = subscriberType \<lparr>subscriberType = Some ''svcA''\<rparr>"
    "messageId (header (createFromString example_env ''r1'')) = ''r1''"
    by (simp_all add: example_defs)
  have cl: "fst (removeMessageIdFromTypeSet ''resp'' (w_type ?wt)
                   (messageId (header (createFromString example_env ''r1''))) ?w1)"
    by (simp add: removeMessageIdFromTypeSet_def i1 m(3))
  have ne: "messageId (header (createFromString example_env ''r1'')) \<noteq>
            messageId (header example_message)"
    by (simp add: example_defs)
  have rq: "messageId (header (fst (snd ?call))) = ''m1''"
    using pawr_listening[OF c l] by (simp add: example_defs)
  from pawr_no_correlation[OF c l m(1) m(2) cl ne]
  show ?thesis
    unfolding Let_def using l rq m(3) by simp
qed

text \<open>
  C4 at the input where it fails. Without \<^verbatim>\<open>option.subscriberType\<close> the check of line 103
  comes after the publish phase: in the scenario the publishing connection has been
  opened, the request has been reserved and written for both types, and the connection
  has been closed before the error is thrown. It is thrown inside the executor, so the
  promise the caller holds stays pending. Only the response subscription is not opened.
\<close>

theorem pawr_checks_option_after_publishing:
  "fst (publishAndWaitForResponse example_env ''orders'' ''resp'' \<lparr>subscriberType = None\<rparr>
          example_message example_world) =
     \<lparr>promise = Pending,
      executorThrew = Some ''[subscriberType] was not set on the option'',
      listener = None\<rparr> \<and>
   trace (snd (snd (publishAndWaitForResponse example_env ''orders'' ''resp''
                      \<lparr>subscriberType = None\<rparr> example_message example_world))) =
     [CreateClient 0,
      AddMessageIdToTypeSet ''orders'' ''worker'' ''m1'',
      ConsoleLog ''PUBLISHING TO [orders]'',
      ClientPublish 0 ''orders'' ''m1>worker'',
      AddMessageIdToTypeSet ''orders'' ''audit'' ''m1'',
      ConsoleLog ''PUBLISHING TO [orders]'',
      ClientPublish 0 ''orders'' ''m1>audit'',
      ClientQuit 0] \<and>
   fst (subscribe ''resp'' \<lparr>subscriberType = None\<rparr> example_world) =
     Inl ''[subscriberType] was not set on the config'' \<and>
   trace (snd (subscribe ''resp'' \<lparr>subscriberType = None\<rparr> example_world)) = []"
  by (simp add: publishAndWaitForResponse_def subscribe_def falsy_def example_defs effect_defs
        Let_def getSubscriberTypes_def getChannelSubscribersForType_def addMessageIdToTypeSet_def)

section \<open>The exit of the process\<close>

text \<open>
  C9. Whatever the exit code: the handler first calls
  \<^verbatim>\<open>unregisterSubscriberFromAllChannels\<close>. When that call settles, with or without an
  error, the process exits with the exit code it was given, and the exit is the last
  event; when the call was rejected, the error line has been written to the console
  before. A rejected unregistration does not keep the process from exiting.
\<close>

theorem processExit_always_exits:
  assumes "unregister (emit UnregisterSubscriberFromAllChannels w) = Some (err, w1)"
  shows "\<exists>w'. processExit_handler unregister exitCode w = Some w' \<and>
         trace w' =
           trace w1 @
           (case err of
              None \<Rightarrow> []
            | Some e \<Rightarrow>
                [ConsoleError
                   ''Error occurred trying to unregister the current process for its subscribed channels'']) @
           [ConsoleLog (''Existing process ['' @ show_nat (pid w1) @ ''] with unique id ['' @
                          uniqueId w1 @ ''] with exist code ['' @ show_int exitCode @ '']''),
            ProcessExit exitCode] \<and>
         trace (emit UnregisterSubscriberFromAllChannels w) =
           trace w @ [UnregisterSubscriberFromAllChannels] \<and>
         last (trace w') = ProcessExit exitCode"
  using assms
  by (cases err) (simp_all add: processExit_handler_def effect_defs)

theorem processExit_always_exits_witness:
  "(\<exists>w'. processExit_handler (\<lambda>w. Some (Some ''store unreachable'', w)) 3 example_world
            = Some w' \<and>
          trace w' =
            [UnregisterSubscriberFromAllChannels,
             ConsoleError
               ''Error occurred trying to unregister the current process for its subscribed channels'',
             ConsoleLog ''Existing process [4242] with unique id [p0] with exist code [3]'',
             ProcessExit 3]) \<and>
   (\<exists>w'. processExit_handler (\<lambda>w. Some (None, w)) 0 example_world = Some w' \<and>
          trace w' =
            [UnregisterSubscriberFromAllChannels,
             ConsoleLog ''Existing process [4242] with unique id [p0] with exist code [0]'',
             ProcessExit 0])"
proof -
  have n: "show_nat 4242 = ''4242''" "show_int 3 = ''3''" "show_int 0 = ''0''"
    by (simp_all add: show_int_def show_nat.simps)
  have a: "(\<lambda>w. Some (Some ''store unreachable'', w))
             (emit UnregisterSubscriberFromAllChannels example_world)
           = Some (Some ''store unreachable'', emit UnregisterSubscriberFromAllChannels example_world)"
    by simp
  have b: "(\<lambda>w. Some (None, w)) (emit UnregisterSubscriberFromAllChannels example_world)
           = Some (None, emit UnregisterSubscriberFromAllChannels example_world)"
    by simp
  from processExit_always_exits
         [of "\<lambda>w. Some (Some ''store unreachable'', w)" example_world
             "Some ''store unreachable''"
             "emit UnregisterSubscriberFromAllChannels example_world" 3, OF a]
       processExit_always_exits
         [of "\<lambda>w. Some (None, w)" example_world None
             "emit UnregisterSubscriberFromAllChannels example_world" 0, OF b]
  obtain wa wb where
    "processExit_handler (\<lambda>w. Some (Some ''store unreachable'', w)) 3 example_world = Some wa"
    "trace wa =
       [UnregisterSubscriberFromAllChannels,
        ConsoleError
          ''Error occurred trying to unregister the current process for its subscribed channels'',
        ConsoleLog ''Existing process [4242] with unique id [p0] with exist code [3]'',
        ProcessExit 3]"
    "processExit_handler (\<lambda>w. Some (None, w)) 0 example_world = Some wb"
    "trace wb =
       [UnregisterSubscriberFromAllChannels,
        ConsoleLog ''Existing process [4242] with unique id [p0] with exist code [0]'',
        ProcessExit 0]"
    by (auto simp: n emit_def example_world_def)
  then show ?thesis
    by blast
qed

end
